theory Spec2Isabelle
  imports Complex_Main "HOL-Library.AList"
begin

section \<open>Python and numpy values\<close>

text \<open>
  The exceptions the two stores can raise from their own code.  \<open>ArrayError\<close> stands for
  the \<open>ValueError\<close>/\<open>TypeError\<close> numpy raises when operands are not numeric arrays of
  matching shape.  Failures of the external collaborators (tokenizer, embedding model,
  file system) are outside the model.
\<close>

datatype py_error = KeyError | IndexError | ZeroDivisionError | ArrayError | FileNotFoundError

text \<open>
  A Python \<open>float\<close> / numpy \<open>float64\<close>.  Finite values are idealised as exact reals
  (no rounding, no overflow, no signed zero); the two infinities and NaN are kept,
  because numpy's division by zero produces them instead of raising.
\<close>

datatype npfloat = Num real | PInf | NInf | NaN

fun fneg :: "npfloat \<Rightarrow> npfloat" where
  "fneg (Num a) = Num (- a)"
| "fneg PInf = NInf"
| "fneg NInf = PInf"
| "fneg NaN = NaN"

fun fadd :: "npfloat \<Rightarrow> npfloat \<Rightarrow> npfloat" where
  "fadd NaN y = NaN"
| "fadd x NaN = NaN"
| "fadd (Num a) (Num b) = Num (a + b)"
| "fadd PInf NInf = NaN"
| "fadd NInf PInf = NaN"
| "fadd PInf y = PInf"
| "fadd x PInf = PInf"
| "fadd NInf y = NInf"
| "fadd x NInf = NInf"

definition fsub :: "npfloat \<Rightarrow> npfloat \<Rightarrow> npfloat" where
  "fsub x y = fadd x (fneg y)"

fun fmul :: "npfloat \<Rightarrow> npfloat \<Rightarrow> npfloat" where
  "fmul NaN y = NaN"
| "fmul x NaN = NaN"
| "fmul (Num a) (Num b) = Num (a * b)"
| "fmul (Num a) PInf = (if a = 0 then NaN else if 0 < a then PInf else NInf)"
| "fmul (Num a) NInf = (if a = 0 then NaN else if 0 < a then NInf else PInf)"
| "fmul PInf (Num b) = (if b = 0 then NaN else if 0 < b then PInf else NInf)"
| "fmul NInf (Num b) = (if b = 0 then NaN else if 0 < b then NInf else PInf)"
| "fmul PInf PInf = PInf"
| "fmul PInf NInf = NInf"
| "fmul NInf PInf = NInf"
| "fmul NInf NInf = PInf"

text \<open>
  numpy's true division: a zero divisor gives NaN (for \<open>0/0\<close>) or an infinity, with a
  RuntimeWarning but no exception.  A zero divisor is read as \<open>+0.0\<close>.
\<close>

fun fdiv :: "npfloat \<Rightarrow> npfloat \<Rightarrow> npfloat" where
  "fdiv NaN y = NaN"
| "fdiv x NaN = NaN"
| "fdiv (Num a) (Num b) =
     (if b \<noteq> 0 then Num (a / b)
      else if a = 0 then NaN else if 0 < a then PInf else NInf)"
| "fdiv (Num a) PInf = Num 0"
| "fdiv (Num a) NInf = Num 0"
| "fdiv PInf (Num b) = (if 0 \<le> b then PInf else NInf)"
| "fdiv NInf (Num b) = (if 0 \<le> b then NInf else PInf)"
| "fdiv PInf y = NaN"
| "fdiv NInf y = NaN"

text \<open>The comparison \<open><\<close> of floats: every comparison with NaN is false.\<close>

fun flt :: "npfloat \<Rightarrow> npfloat \<Rightarrow> bool" where
  "flt NaN y = False"
| "flt x NaN = False"
| "flt (Num a) (Num b) = (a < b)"
| "flt x NInf = False"
| "flt NInf y = True"
| "flt PInf y = False"
| "flt x PInf = True"

text \<open>
  The order numpy sorts by: the numeric order, with NaN after every other value.
\<close>

fun np_rank :: "npfloat \<Rightarrow> nat" where
  "np_rank NInf = 0"
| "np_rank (Num a) = 1"
| "np_rank PInf = 2"
| "np_rank NaN = 3"

fun np_sort_le :: "npfloat \<Rightarrow> npfloat \<Rightarrow> bool" where
  "np_sort_le (Num a) (Num b) = (a \<le> b)"
| "np_sort_le x y = (np_rank x \<le> np_rank y)"

text \<open>\<open>np.log\<close> of a Python float: \<open>-inf\<close> at zero and NaN below it, no exception.\<close>

definition np_log :: "real \<Rightarrow> npfloat" where
  "np_log x = (if 0 < x then Num (ln x) else if x = 0 then NInf else NaN)"

text \<open>Python's \<open>/\<close> on two ints: a float, or \<open>ZeroDivisionError\<close>.\<close>

definition py_truediv :: "int \<Rightarrow> int \<Rightarrow> py_error + npfloat" where
  "py_truediv a b = (if b = 0 then Inl ZeroDivisionError else Inr (Num (of_int a / of_int b)))"


text \<open>
  \<open>str(n)\<close> of a non-negative integer: its decimal digits.
\<close>

definition digit_char :: "nat \<Rightarrow> char" where
  "digit_char d = ''0123456789'' ! d"

function str_nat :: "nat \<Rightarrow> string" where
  "str_nat n = (if n < 10 then [digit_char n] else str_nat (n div 10) @ [digit_char (n mod 10)])"
  by pat_completeness auto
termination
  by (relation "measure (\<lambda>n. n)") auto

declare str_nat.simps [simp del]

text \<open>
  A Python \<open>dict\<close> is an association list in insertion order with distinct keys:
  \<open>d[k] = v\<close> is \<^const>\<open>AList.update\<close> (replace in place, else append at the end),
  \<open>del d[k]\<close> is \<^const>\<open>AList.delete\<close>, \<open>d.get(k)\<close> is \<^const>\<open>map_of\<close>, and
  \<open>d[k]\<close> raises \<open>KeyError\<close> on a missing key.
\<close>

definition py_getitem :: "('k \<times> 'v) list \<Rightarrow> 'k \<Rightarrow> py_error + 'v" where
  "py_getitem d k = (case map_of d k of None \<Rightarrow> Inl KeyError | Some v \<Rightarrow> Inr v)"

text \<open>The comprehension \<open>[d[k] for k in ks]\<close>: the first missing key raises.\<close>

fun py_getitems :: "('k \<times> 'v) list \<Rightarrow> 'k list \<Rightarrow> py_error + 'v list" where
  "py_getitems d [] = Inr []"
| "py_getitems d (k # ks) =
     (case py_getitem d k of
        Inl e \<Rightarrow> Inl e
      | Inr v \<Rightarrow> (case py_getitems d ks of Inl e \<Rightarrow> Inl e | Inr vs \<Rightarrow> Inr (v # vs)))"

text \<open>
  \<open>sorted(xs, key=key, reverse=True)\<close>: a stable sort into descending key order that
  compares keys with \<open><\<close> only.  Each element is inserted, from the right, in front of
  the first element whose key is not greater than its own, so equal keys keep their
  original order.  When no key is NaN this is the result of Python's sort; with NaN keys
  the comparison is not an order and the result of Python's sort depends on its merge
  strategy, which is not modelled.
\<close>

fun sorted_insert :: "('a \<Rightarrow> npfloat) \<Rightarrow> 'a \<Rightarrow> 'a list \<Rightarrow> 'a list" where
  "sorted_insert key x [] = [x]"
| "sorted_insert key x (y # ys) =
     (if flt (key x) (key y) then y # sorted_insert key x ys else x # y # ys)"

definition py_sorted_reverse :: "('a \<Rightarrow> npfloat) \<Rightarrow> 'a list \<Rightarrow> 'a list" where
  "py_sorted_reverse key xs = foldr (sorted_insert key) xs []"

section \<open>Nodes, results and the shared store state\<close>

text \<open>
  Modelled from the spec: the node type \<open>TextNode\<close> of \<open>vector_store/node.py\<close>, which is
  not among the sources.  Section 3 gives it an id, a text, a metadata mapping and an
  optional embedding; the stores read the fields \<open>id_\<close>, \<open>text\<close> and \<open>embedding\<close>.
\<close>

record TextNode =
  node_id :: string
  node_text :: string
  metadata :: "(string \<times> string) list"
  embedding :: "real list option"


text \<open>
  Modelled from the spec: the state \<open>BaseVectorStore\<close> of \<open>vector_store/base.py\<close> keeps
  for both stores: the node map and the two flags.  \<open>saved_csv\<close> is the content of the
  snapshot file at \<open>saved_file\<close> (\<open>None\<close> while it does not exist) and \<open>csv_writes\<close> counts
  the snapshot writes performed so far.
\<close>

record BaseVectorStore =
  node_dict :: "(string \<times> TextNode) list"
  persist :: bool
  force_index :: bool
  saved_csv :: "TextNode list option"
  csv_writes :: nat

text \<open>
  Modelled from the spec: \<open>_update_csv\<close> of \<open>vector_store/base.py\<close>.  Section 4.4: the
  snapshot holds one row per node and is written in full when \<open>persist\<close> is enabled.
\<close>

definition update_csv :: "'a BaseVectorStore_scheme \<Rightarrow> 'a BaseVectorStore_scheme" where
  "update_csv s =
     (if persist s
      then s\<lparr>saved_csv := Some (map snd (node_dict s)), csv_writes := Suc (csv_writes s)\<rparr>
      else s)"

section \<open>The dense store (semantic\_vector\_store.py)\<close>

text \<open>\<open>SemanticVectorStore.get\<close>: the \<open>KeyError\<close> is caught and \<open>None\<close> returned.\<close>

definition semantic_get :: "'a BaseVectorStore_scheme \<Rightarrow> string \<Rightarrow> TextNode option" where
  "semantic_get s text_id =
     (case py_getitem (node_dict s) text_id of Inl e \<Rightarrow> None | Inr node \<Rightarrow> Some node)"

text \<open>
  \<open>SemanticVectorStore.add\<close>.  The loop assigns a missing embedding to the node object
  itself, so besides the new state and the returned ids the model returns the nodes as
  they are after the call.  \<open>get_text_embedding\<close> is the external embedding model behind \<open>_get_text_embedding\<close>.
\<close>

fun semantic_add_loop ::
  "(string \<Rightarrow> real list) \<Rightarrow> (string \<times> TextNode) list \<Rightarrow> TextNode list
   \<Rightarrow> (string \<times> TextNode) list \<times> TextNode list" where
  "semantic_add_loop get_text_embedding nd [] = (nd, [])"
| "semantic_add_loop get_text_embedding nd (node # rest) =
     (let node' = (if embedding node = None
                   then node\<lparr>embedding := Some (get_text_embedding (node_text node))\<rparr> else node);
          (nd', rest') = semantic_add_loop get_text_embedding (AList.update (node_id node') node' nd) rest
      in (nd', node' # rest'))"

definition semantic_add ::
  "(string \<Rightarrow> real list) \<Rightarrow> 'a BaseVectorStore_scheme \<Rightarrow> TextNode list
   \<Rightarrow> 'a BaseVectorStore_scheme \<times> string list \<times> TextNode list" where
  "semantic_add get_text_embedding s nodes_in =
     (let (nd', nodes') = semantic_add_loop get_text_embedding (node_dict s) nodes_in
      in (update_csv (s\<lparr>node_dict := nd'\<rparr>), map node_id nodes', nodes'))"

text \<open>\<open>SemanticVectorStore.delete\<close>: the snapshot is rewritten in the first branch only.\<close>

definition semantic_delete :: "'a BaseVectorStore_scheme \<Rightarrow> string \<Rightarrow> 'a BaseVectorStore_scheme" where
  "semantic_delete s nid =
     (if nid \<in> fst ` set (node_dict s)
      then update_csv (s\<lparr>node_dict := AList.delete nid (node_dict s)\<rparr>)
      else s)"

definition np_dot :: "real list \<Rightarrow> real list \<Rightarrow> real" where
  "np_dot xs ys = sum_list (map2 (*) xs ys)"

definition np_linalg_norm :: "real list \<Rightarrow> real" where
  "np_linalg_norm xs = sqrt (sum_list (map (\<lambda>x. x * x) xs))"




section \<open>The sparse store (sparse\_vector\_store.py)\<close>

text \<open>
  The object \<open>content\<close> that \<open>_initialize_bm25_assets\<close> dumps to the sidecar file and
  \<open>_load_from_json\<close> reads back.  \<open>json.dump\<close> followed by \<open>json.load\<close> returns ints,
  floats (NaN and the infinities included), strings, lists and string-keyed objects
  unchanged, so the file content is the value itself.
\<close>

record bm25_content =
  content_corpus_size :: int
  content_avgdl :: npfloat
  content_doc_freqs :: "(string \<times> int) list list"
  content_idf :: "(string \<times> npfloat) list"
  content_doc_len :: "int list"
  content_nd :: int

text \<open>
  The fields of \<open>SparseVectorStore\<close>.  \<open>metadata_json\<close> is the content of the file at
  \<open>metadata_file\<close> (\<open>None\<close> while it does not exist); \<open>bm25_k1\<close>, \<open>bm25_b\<close> and
  \<open>bm25_delta\<close> are the fields \<open>k1\<close>, \<open>b\<close> and \<open>delta\<close>.
\<close>

record SparseVectorStore = BaseVectorStore +
  metadata_json :: "bm25_content option"
  corpus_size :: int
  avgdl :: npfloat
  doc_freqs :: "(string \<times> int) list list"
  idf :: "(string \<times> npfloat) list"
  doc_len :: "int list"
  nd :: int
  bm25_k1 :: npfloat
  bm25_b :: npfloat
  bm25_delta :: npfloat

text \<open>
  The state pydantic builds before the body of \<open>__init__\<close> runs: the base fields as
  given (the node map as loaded), the derived fields at their \<open>Field\<close> defaults and the
  hyperparameters at theirs.
\<close>

definition field_defaults ::
  "(string \<times> TextNode) list \<Rightarrow> bool \<Rightarrow> bool \<Rightarrow> TextNode list option \<Rightarrow> bm25_content option
   \<Rightarrow> SparseVectorStore" where
  "field_defaults nd0 persist0 force0 csv0 json0 =
     \<lparr>node_dict = nd0, persist = persist0, force_index = force0, saved_csv = csv0,
      csv_writes = 0, metadata_json = json0, corpus_size = 0, avgdl = Num 0,
      doc_freqs = [], idf = [], doc_len = [], nd = 0,
      bm25_k1 = Num (12 / 10), bm25_b = Num (75 / 100), bm25_delta = Num (25 / 100)\<rparr>"

text \<open>
  The inner loop of \<open>_initialize\<close> over the words of one document.  The increment reads
  a key the line before has just made present.
\<close>

fun count_frequencies :: "string list \<Rightarrow> (string \<times> int) list \<Rightarrow> (string \<times> int) list" where
  "count_frequencies [] frequencies = frequencies"
| "count_frequencies (word # rest) frequencies =
     (let f0 = (if word \<notin> fst ` set frequencies then AList.update word 0 frequencies
                else frequencies);
          f1 = AList.update word ((case map_of f0 word of None \<Rightarrow> 0 | Some c \<Rightarrow> c) + 1) f0
      in count_frequencies rest f1)"

text \<open>The loop over \<open>frequencies.items()\<close>: \<open>nd[word] += 1\<close>, or \<open>nd[word] = 1\<close> on \<open>KeyError\<close>.\<close>

fun count_documents :: "(string \<times> int) list \<Rightarrow> (string \<times> int) list \<Rightarrow> (string \<times> int) list" where
  "count_documents [] nd_map = nd_map"
| "count_documents ((word, freq) # rest) nd_map =
     count_documents rest
       (case map_of nd_map word of
          Some c \<Rightarrow> AList.update word (c + 1) nd_map
        | None \<Rightarrow> AList.update word 1 nd_map)"

text \<open>
  The loop of \<open>_initialize\<close> over the corpus, on the store and the two locals \<open>nd\<close>
  (word to number of documents with the word) and \<open>num_doc\<close>.
\<close>

fun initialize_loop ::
  "string list list \<Rightarrow> SparseVectorStore \<times> (string \<times> int) list \<times> int
   \<Rightarrow> SparseVectorStore \<times> (string \<times> int) list \<times> int" where
  "initialize_loop [] st = st"
| "initialize_loop (document # rest) (s, nd_map, num_doc) =
     (let frequencies = count_frequencies document []
      in initialize_loop rest
           (s\<lparr>doc_len := doc_len s @ [int (length document)],
              doc_freqs := doc_freqs s @ [frequencies],
              corpus_size := corpus_size s + 1\<rparr>,
            count_documents frequencies nd_map,
            num_doc + int (length document)))"

text \<open>
  \<open>_calculate_idf\<close>.  The divisor \<open>doc_count + 0.5\<close> is never zero for an integer
  \<open>doc_count\<close>, so the Python division cannot raise.
\<close>

definition calculate_idf :: "int \<Rightarrow> int \<Rightarrow> npfloat" where
  "calculate_idf doc_count corpus_size0 =
     np_log ((of_int (corpus_size0 - doc_count) + 5 / 10) / (of_int doc_count + 5 / 10) + 1)"

definition initialize :: "SparseVectorStore \<Rightarrow> string list list \<Rightarrow> py_error + SparseVectorStore" where
  "initialize s corpus =
     (case initialize_loop corpus (s, [], 0) of
        (s1, nd_map, num_doc) \<Rightarrow>
          (case py_truediv num_doc (corpus_size s1) of
             Inl e \<Rightarrow> Inl e
           | Inr a \<Rightarrow>
               Inr (s1\<lparr>avgdl := a,
                       idf := map (\<lambda>(word, doc_count).
                                (word, calculate_idf doc_count (corpus_size s1))) nd_map\<rparr>)))"

definition content_of :: "SparseVectorStore \<Rightarrow> bm25_content" where
  "content_of s =
     \<lparr>content_corpus_size = corpus_size s, content_avgdl = avgdl s,
      content_doc_freqs = doc_freqs s, content_idf = idf s,
      content_doc_len = doc_len s, content_nd = nd s\<rparr>"

text \<open>
  \<open>_initialize_bm25_assets\<close>.  \<open>tokenize\<close> is the external tokenizer; \<open>pool.map\<close> over
  the texts returns the token lists in the order of the node map.
\<close>

definition initialize_bm25_assets ::
  "(string \<Rightarrow> string list) \<Rightarrow> SparseVectorStore \<Rightarrow> py_error + SparseVectorStore" where
  "initialize_bm25_assets tokenize s =
     (let s0 = s\<lparr>corpus_size := 0, avgdl := Num 0, doc_freqs := [], idf := [],
                 doc_len := [], nd := 0\<rparr>;
          corpus = map tokenize (map (\<lambda>(k, node). node_text node) (node_dict s0))
      in case initialize s0 corpus of
           Inl e \<Rightarrow> Inl e
         | Inr s1 \<Rightarrow> Inr (s1\<lparr>metadata_json := Some (content_of s1)\<rparr>))"

definition load_from_json :: "SparseVectorStore \<Rightarrow> py_error + SparseVectorStore" where
  "load_from_json s =
     (case metadata_json s of
        None \<Rightarrow> Inl FileNotFoundError
      | Some content \<Rightarrow>
          Inr (s\<lparr>corpus_size := content_corpus_size content, avgdl := content_avgdl content,
                 doc_freqs := content_doc_freqs content, idf := content_idf content,
                 doc_len := content_doc_len content, nd := content_nd content\<rparr>))"

text \<open>The body of \<open>__init__\<close>, on the state \<open>super().__init__\<close> has built.\<close>

definition SparseVectorStore_init ::
  "(string \<Rightarrow> string list) \<Rightarrow> SparseVectorStore \<Rightarrow> py_error + SparseVectorStore" where
  "SparseVectorStore_init tokenize s =
     (if 0 < length (node_dict s)
      then (if metadata_json s \<noteq> None \<and> \<not> force_index s
            then load_from_json s
            else initialize_bm25_assets tokenize s)
      else Inr s)"

definition sparse_add ::
  "(string \<Rightarrow> string list) \<Rightarrow> SparseVectorStore \<Rightarrow> TextNode list
   \<Rightarrow> py_error + (SparseVectorStore \<times> string list)" where
  "sparse_add tokenize s nodes_in =
     (let s1 = update_csv
                 (s\<lparr>node_dict := fold (\<lambda>node d. AList.update (node_id node) node d)
                                      nodes_in (node_dict s)\<rparr>)
      in case initialize_bm25_assets tokenize s1 of
           Inl e \<Rightarrow> Inl e
         | Inr s2 \<Rightarrow> Inr (s2, map node_id nodes_in))"

definition sparse_get :: "SparseVectorStore \<Rightarrow> string \<Rightarrow> TextNode option" where
  "sparse_get s text_id =
     (case py_getitem (node_dict s) text_id of Inl e \<Rightarrow> None | Inr node \<Rightarrow> Some node)"

text \<open>
  numpy's elementwise operations on one-dimensional arrays: equal lengths, or one
  operand of length one that is broadcast; other shapes raise.  The in-place \<open>+=\<close>
  keeps the shape of its left operand.
\<close>

definition np_elementwise ::
  "(npfloat \<Rightarrow> npfloat \<Rightarrow> npfloat) \<Rightarrow> npfloat list \<Rightarrow> npfloat list \<Rightarrow> py_error + npfloat list" where
  "np_elementwise f xs ys =
     (if length xs = length ys then Inr (map2 f xs ys)
      else if length xs = 1 then Inr (map (f (hd xs)) ys)
      else if length ys = 1 then Inr (map (\<lambda>x. f x (hd ys)) xs)
      else Inl ArrayError)"

definition np_iadd :: "npfloat list \<Rightarrow> npfloat list \<Rightarrow> py_error + npfloat list" where
  "np_iadd score xs =
     (if length xs = length score then Inr (map2 fadd score xs)
      else if length xs = 1 then Inr (map (\<lambda>x. fadd x (hd xs)) score)
      else Inl ArrayError)"

text \<open>
  One round of the loop of \<open>get_scores\<close> for the query token \<open>q\<close>; \<open>x or 0\<close> turns a
  missing entry into zero.
\<close>

definition q_freq_of :: "SparseVectorStore \<Rightarrow> string \<Rightarrow> npfloat list" where
  "q_freq_of s q =
     map (\<lambda>doc. Num (of_int (case map_of doc q of None \<Rightarrow> 0 | Some c \<Rightarrow> c))) (doc_freqs s)"

definition length_norm_of :: "SparseVectorStore \<Rightarrow> npfloat list" where
  "length_norm_of s =
     map (\<lambda>l. fadd (fsub (Num 1) (bm25_b s))
                 (fdiv (fmul (bm25_b s) (Num (of_int l))) (avgdl s))) (doc_len s)"

definition score_term :: "SparseVectorStore \<Rightarrow> string \<Rightarrow> npfloat \<Rightarrow> npfloat" where
  "score_term s q ctd =
     fdiv (fmul (fmul (case map_of (idf s) q of None \<Rightarrow> Num 0 | Some v \<Rightarrow> v)
                      (fadd (bm25_k1 s) (Num 1)))
                (fadd ctd (bm25_delta s)))
          (fadd (fadd (bm25_k1 s) ctd) (bm25_delta s))"

fun get_scores_loop ::
  "SparseVectorStore \<Rightarrow> string list \<Rightarrow> npfloat list \<Rightarrow> py_error + npfloat list" where
  "get_scores_loop s [] score = Inr score"
| "get_scores_loop s (q # rest) score =
     (case np_elementwise fdiv (q_freq_of s q) (length_norm_of s) of
        Inl e \<Rightarrow> Inl e
      | Inr ctd \<Rightarrow>
          (case np_iadd score (map (score_term s q) ctd) of
             Inl e \<Rightarrow> Inl e
           | Inr score' \<Rightarrow> get_scores_loop s rest score'))"

definition get_scores ::
  "(string \<Rightarrow> string list) \<Rightarrow> SparseVectorStore \<Rightarrow> string \<Rightarrow> py_error + npfloat list" where
  "get_scores tokenize s query =
     (if corpus_size s < 0 then Inl ArrayError
      else get_scores_loop s (tokenize query) (replicate (nat (corpus_size s)) (Num 0)))"


text \<open>
  The stable instance: indices inserted, from the right, behind every index whose value
  is not greater.  numpy's default sort is this insertion sort on arrays of at most 16
  elements.
\<close>

fun argsort_insert :: "npfloat list \<Rightarrow> nat \<Rightarrow> nat list \<Rightarrow> nat list" where
  "argsort_insert xs i [] = [i]"
| "argsort_insert xs i (j # js) =
     (if np_sort_le (xs ! i) (xs ! j) then i # j # js else j # argsort_insert xs i js)"



text \<open>
  The sparse stores a program can hold: built by the constructor from the field
  defaults, with any hyperparameters, then changed by \<open>add\<close> (the class defines no other
  mutating operation).
\<close>

inductive sparse_reachable :: "(string \<Rightarrow> string list) \<Rightarrow> SparseVectorStore \<Rightarrow> bool"
  for tokenize :: "string \<Rightarrow> string list" where
  constructed:
    "SparseVectorStore_init tokenize
       ((field_defaults nd0 persist0 force0 csv0 json0)
          \<lparr>bm25_k1 := k1, bm25_b := b, bm25_delta := delta\<rparr>) = Inr s
     \<Longrightarrow> sparse_reachable tokenize s"
| added:
    "sparse_reachable tokenize s \<Longrightarrow> sparse_add tokenize s nodes_in = Inr (s', ids_out)
     \<Longrightarrow> sparse_reachable tokenize s'"

text \<open>The token lists \<open>_initialize_bm25_assets\<close> passes to \<open>_initialize\<close>.\<close>

definition corpus_of :: "(string \<Rightarrow> string list) \<Rightarrow> 'a BaseVectorStore_scheme \<Rightarrow> string list list" where
  "corpus_of tokenize s = map tokenize (map (\<lambda>(k, node). node_text node) (node_dict s))"

section \<open>Example inputs\<close>

text \<open>
  Stand-ins for the external collaborators, used to run the stores on concrete inputs:
  a tokenizer that makes every character a token, and an embedding that counts the
  letters \<open>a\<close> and \<open>b\<close> of a text.
\<close>

definition char_tokenize :: "string \<Rightarrow> string list" where
  "char_tokenize t = map (\<lambda>c. [c]) t"

definition letter_embedding :: "string \<Rightarrow> real list" where
  "letter_embedding t = [real (count_list t CHR ''a''), real (count_list t CHR ''b'')]"

definition example_node :: "string \<Rightarrow> string \<Rightarrow> TextNode" where
  "example_node i t = \<lparr>node_id = i, node_text = t, metadata = [], embedding = None\<rparr>"

definition empty_dense :: BaseVectorStore where
  "empty_dense =
     \<lparr>node_dict = [], persist = True, force_index = False, saved_csv = None, csv_writes = 0\<rparr>"

definition empty_sparse :: SparseVectorStore where
  "empty_sparse = field_defaults [] True False None None"


definition two_nodes :: "(string \<times> TextNode) list" where
  "two_nodes = [(''0'', example_node ''0'' ''ab''), (''1'', example_node ''1'' ''b'')]"

text \<open>The sparse store after \<open>add\<close> of the two nodes to the empty store.\<close>

definition example_sparse :: SparseVectorStore where
  "example_sparse =
     \<lparr>node_dict = two_nodes, persist = True, force_index = False,
      saved_csv = Some (map snd two_nodes), csv_writes = 1,
      metadata_json = Some
        \<lparr>content_corpus_size = 2, content_avgdl = Num (3 / 2),
         content_doc_freqs = [[(''a'', 1), (''b'', 1)], [(''b'', 1)]],
         content_idf = [(''a'', Num (ln 2)), (''b'', Num (ln (6 / 5)))],
         content_doc_len = [2, 1], content_nd = 0\<rparr>,
      corpus_size = 2, avgdl = Num (3 / 2),
      doc_freqs = [[(''a'', 1), (''b'', 1)], [(''b'', 1)]],
      idf = [(''a'', Num (ln 2)), (''b'', Num (ln (6 / 5)))],
      doc_len = [2, 1], nd = 0,
      bm25_k1 = Num (12 / 10), bm25_b = Num (75 / 100), bm25_delta = Num (25 / 100)\<rparr>"

text \<open>
  The same two texts under the ids \<open>1\<close> and \<open>2\<close>: the store after \<open>add\<close> of nodes
  numbered from one.
\<close>

definition shifted_sparse :: SparseVectorStore where
  "shifted_sparse =
     example_sparse
       \<lparr>node_dict := [(''1'', example_node ''1'' ''ab''), (''2'', example_node ''2'' ''b'')],
        saved_csv := Some [example_node ''1'' ''ab'', example_node ''2'' ''b'']\<rparr>"

text \<open>The store after \<open>add\<close> of one node with an empty text to the empty store.\<close>

definition blank_sparse :: SparseVectorStore where
  "blank_sparse =
     \<lparr>node_dict = [(''0'', example_node ''0'' [])], persist = True, force_index = False,
      saved_csv = Some [example_node ''0'' []], csv_writes = 1,
      metadata_json = Some
        \<lparr>content_corpus_size = 1, content_avgdl = Num 0, content_doc_freqs = [[]],
         content_idf = [], content_doc_len = [0], content_nd = 0\<rparr>,
      corpus_size = 1, avgdl = Num 0, doc_freqs = [[]], idf = [], doc_len = [0], nd = 0,
      bm25_k1 = Num (12 / 10), bm25_b = Num (75 / 100), bm25_delta = Num (25 / 100)\<rparr>"

section \<open>Notions used in the statements\<close>

text \<open>
  The cosine similarity of the query vector \<open>q\<close> and a document vector \<open>v\<close>, with what
  numpy's division returns when a norm is zero.
\<close>

definition cosine_similarity :: "real list \<Rightarrow> real list \<Rightarrow> npfloat" where
  "cosine_similarity q v =
     (if np_linalg_norm q = 0 \<or> np_linalg_norm v = 0 then NaN
      else Num (np_dot v q / (np_linalg_norm q * np_linalg_norm v)))"

text \<open>
  The candidates of a dense query, in iteration order over the node map: every node's
  cosine similarity to the embedded query, with the node's key.
\<close>

definition dense_candidates ::
  "(string \<Rightarrow> real list) \<Rightarrow> 'a BaseVectorStore_scheme \<Rightarrow> string \<Rightarrow> (npfloat \<times> string) list" where
  "dense_candidates get_text_embedding s query =
     map (\<lambda>(k, node). (cosine_similarity (get_text_embedding query) (the (embedding node)), k))
       (node_dict s)"






text \<open>
  The BM25+ score as the specification writes it, over a corpus of token lists with the
  fixed hyperparameters \<open>k1 = 1.2\<close>, \<open>b = 0.75\<close> and \<open>delta = 0.25\<close>: the document
  frequency \<open>df\<close>, the average document length, \<open>idf\<close>, the length-normalised term
  frequency \<open>tf'\<close>, the contribution of one query token and the sum over the tokens of
  the query, repeated tokens included.
\<close>

definition document_frequency :: "string list list \<Rightarrow> string \<Rightarrow> nat" where
  "document_frequency corpus q = length (filter (\<lambda>d. q \<in> set d) corpus)"

definition average_document_length :: "string list list \<Rightarrow> real" where
  "average_document_length corpus = (\<Sum>d\<leftarrow>corpus. real (length d)) / real (length corpus)"

definition bm25plus_idf :: "string list list \<Rightarrow> string \<Rightarrow> real" where
  "bm25plus_idf corpus q =
     (if document_frequency corpus q = 0 then 0
      else ln ((real (length corpus) - real (document_frequency corpus q) + 5 / 10)
               / (real (document_frequency corpus q) + 5 / 10) + 1))"

definition bm25plus_tf :: "string list list \<Rightarrow> string \<Rightarrow> string list \<Rightarrow> real" where
  "bm25plus_tf corpus q d =
     real (count_list d q)
     / (1 - 75 / 100 + 75 / 100 * real (length d) / average_document_length corpus)"

definition bm25plus_term :: "string list list \<Rightarrow> string \<Rightarrow> string list \<Rightarrow> real" where
  "bm25plus_term corpus q d =
     bm25plus_idf corpus q * (12 / 10 + 1) * (bm25plus_tf corpus q d + 25 / 100)
     / (12 / 10 + bm25plus_tf corpus q d + 25 / 100)"

definition bm25plus_score :: "string list list \<Rightarrow> string list \<Rightarrow> string list \<Rightarrow> real" where
  "bm25plus_score corpus query_tokens d = (\<Sum>q\<leftarrow>query_tokens. bm25plus_term corpus q d)"

text \<open>The hyperparameters of a sparse store are at the defaults of their fields.\<close>

definition default_hyperparameters :: "SparseVectorStore \<Rightarrow> bool" where
  "default_hyperparameters s =
     (bm25_k1 s = Num (12 / 10) \<and> bm25_b s = Num (75 / 100) \<and> bm25_delta s = Num (25 / 100))"

section \<open>Lookup, insertion and deletion\<close>

lemma py_getitem_Inr_iff: "py_getitem d k = Inr v \<longleftrightarrow> map_of d k = Some v"
  by (simp add: py_getitem_def split: option.splits)


lemma semantic_get_eq: "semantic_get s text_id = map_of (node_dict s) text_id"
  by (simp add: semantic_get_def py_getitem_def split: option.splits)

lemma sparse_get_eq: "sparse_get s text_id = map_of (node_dict s) text_id"
  by (simp add: sparse_get_def py_getitem_def split: option.splits)

lemma node_dict_update_csv [simp]: "node_dict (update_csv s) = node_dict s"
  by (simp add: update_csv_def)

text \<open>
  C10.  On an id that is not a key of the node map, \<open>SemanticVectorStore.delete\<close> returns
  the store as it was: the node map, the snapshot file and the number of snapshot writes
  are unchanged.
\<close>

theorem semantic_delete_absent_unchanged:
  assumes "nid \<notin> fst ` set (node_dict s)"
  shows "semantic_delete s nid = s
       \<and> node_dict (semantic_delete s nid) = node_dict s
       \<and> saved_csv (semantic_delete s nid) = saved_csv s
       \<and> csv_writes (semantic_delete s nid) = csv_writes s"
  using assms by (simp add: semantic_delete_def)

theorem semantic_delete_absent_unchanged_witness:
  "''zz'' \<notin> fst ` set (node_dict empty_dense)
   \<and> semantic_delete empty_dense ''zz'' = empty_dense
   \<and> csv_writes (semantic_delete empty_dense ''zz'') = 0"
  using semantic_delete_absent_unchanged [of "''zz''" empty_dense]
  by (simp add: empty_dense_def)

section \<open>The index built by \<open>_initialize\<close>\<close>

lemma initialize_loop_eq:
  "initialize_loop corpus (s, nd_map, num_doc) =
     (s\<lparr>doc_len := doc_len s @ map (\<lambda>d. int (length d)) corpus,
        doc_freqs := doc_freqs s @ map (\<lambda>d. count_frequencies d []) corpus,
        corpus_size := corpus_size s + int (length corpus)\<rparr>,
      fold count_documents (map (\<lambda>d. count_frequencies d []) corpus) nd_map,
      num_doc + (\<Sum>d\<leftarrow>corpus. int (length d)))"
  by (induction corpus arbitrary: s nd_map num_doc) (simp_all add: Let_def)

lemma initialize_bm25_assets_empty:
  "node_dict s = [] \<Longrightarrow> initialize_bm25_assets tokenize s = Inl ZeroDivisionError"
  by (simp add: initialize_bm25_assets_def initialize_def py_truediv_def)

lemma initialize_bm25_assets_nonempty:
  assumes "node_dict s \<noteq> []"
  shows "initialize_bm25_assets tokenize s =
     Inr (s\<lparr>corpus_size := int (length (node_dict s)),
            avgdl := Num ((\<Sum>d\<leftarrow>corpus_of tokenize s. real (length d)) / real (length (node_dict s))),
            doc_freqs := map (\<lambda>d. count_frequencies d []) (corpus_of tokenize s),
            idf := map (\<lambda>(word, doc_count). (word, calculate_idf doc_count (int (length (node_dict s)))))
                     (fold count_documents (map (\<lambda>d. count_frequencies d []) (corpus_of tokenize s)) []),
            doc_len := map (\<lambda>d. int (length d)) (corpus_of tokenize s),
            nd := 0,
            metadata_json := Some
              \<lparr>content_corpus_size = int (length (node_dict s)),
               content_avgdl = Num ((\<Sum>d\<leftarrow>corpus_of tokenize s. real (length d)) / real (length (node_dict s))),
               content_doc_freqs = map (\<lambda>d. count_frequencies d []) (corpus_of tokenize s),
               content_idf = map (\<lambda>(word, doc_count). (word, calculate_idf doc_count (int (length (node_dict s)))))
                     (fold count_documents (map (\<lambda>d. count_frequencies d []) (corpus_of tokenize s)) []),
               content_doc_len = map (\<lambda>d. int (length d)) (corpus_of tokenize s),
               content_nd = 0\<rparr>\<rparr>)"
proof -
  have sum: "real_of_int (\<Sum>d\<leftarrow>xs. int (length d)) = (\<Sum>d\<leftarrow>xs. real (length d))" for xs :: "string list list"
    by (induction xs) simp_all
  have len: "length (corpus_of tokenize s) = length (node_dict s)"
    by (simp add: corpus_of_def)
  have unfold: "initialize_bm25_assets tokenize s =
      (case initialize (s\<lparr>corpus_size := 0, avgdl := Num 0, doc_freqs := [], idf := [],
                 doc_len := [], nd := 0\<rparr>) (corpus_of tokenize s) of
           Inl e \<Rightarrow> Inl e
         | Inr s1 \<Rightarrow> Inr (s1\<lparr>metadata_json := Some (content_of s1)\<rparr>))"
    by (simp add: initialize_bm25_assets_def corpus_of_def Let_def)
  show ?thesis
    unfolding unfold using assms
    by (simp add: initialize_def initialize_loop_eq py_truediv_def content_of_def len sum)
qed

lemma update_not_Nil [simp]: "AList.update k v al \<noteq> []"
  by (cases al) simp_all

lemma node_dict_initialize_bm25_assets:
  "initialize_bm25_assets tokenize s = Inr s' \<Longrightarrow> node_dict s' = node_dict s"
  by (cases "node_dict s = []")
     (auto simp: initialize_bm25_assets_empty initialize_bm25_assets_nonempty)

text \<open>
  C9.  After \<open>add([n])\<close>, \<open>get(n.id)\<close> returns \<open>n\<close>, in both stores.  The dense \<open>add\<close>
  assigns a missing embedding to the node object itself, so there \<open>n\<close> is the node as it
  is after the call (unchanged when it came with an embedding).  The sparse \<open>add\<close> of a
  node always completes.  On an id that is not a key of the node map, \<open>get\<close> of either
  store returns \<open>None\<close>; \<open>get\<close> has no raising branch.
\<close>

theorem add_get_roundtrip:
  "(let n' = (if embedding n = None
              then n\<lparr>embedding := Some (get_text_embedding (node_text n))\<rparr> else n)
    in case semantic_add get_text_embedding s [n] of
         (s', ids_out, nodes_out) \<Rightarrow>
           nodes_out = [n'] \<and> ids_out = [node_id n] \<and> semantic_get s' (node_id n) = Some n')
   \<and> (\<exists>t'. sparse_add tokenize t [n] = Inr (t', [node_id n])
            \<and> sparse_get t' (node_id n) = Some n)
   \<and> (text_id \<notin> fst ` set (node_dict s) \<longrightarrow> semantic_get s text_id = None)
   \<and> (text_id \<notin> fst ` set (node_dict t) \<longrightarrow> sparse_get t text_id = None)"
proof -
  have dense: "(let n' = (if embedding n = None
              then n\<lparr>embedding := Some (get_text_embedding (node_text n))\<rparr> else n)
    in case semantic_add get_text_embedding s [n] of
         (s', ids_out, nodes_out) \<Rightarrow>
           nodes_out = [n'] \<and> ids_out = [node_id n] \<and> semantic_get s' (node_id n) = Some n')"
    by (simp add: semantic_add_def semantic_get_eq update_conv' Let_def)
  let ?t1 = "update_csv (t\<lparr>node_dict := AList.update (node_id n) n (node_dict t)\<rparr>)"
  have "node_dict ?t1 \<noteq> []" by simp
  then obtain t' where built: "initialize_bm25_assets tokenize ?t1 = Inr t'"
    by (simp add: initialize_bm25_assets_nonempty)
  then have "node_dict t' = AList.update (node_id n) n (node_dict t)"
    by (simp add: node_dict_initialize_bm25_assets)
  with built have sparse: "\<exists>t'. sparse_add tokenize t [n] = Inr (t', [node_id n])
            \<and> sparse_get t' (node_id n) = Some n"
    by (simp add: sparse_add_def sparse_get_eq update_conv')
  have missing: "text_id \<notin> fst ` set (node_dict u) \<Longrightarrow> map_of (node_dict u) text_id = None"
    for u :: "'b BaseVectorStore_scheme"
    by (simp add: map_of_eq_None_iff)
  from dense sparse show ?thesis
    by (simp add: semantic_get_eq sparse_get_eq missing)
qed

theorem add_get_roundtrip_witness:
  "semantic_get (fst (semantic_add letter_embedding empty_dense [example_node ''7'' ''ab'']))
     ''7'' = Some ((example_node ''7'' ''ab'')\<lparr>embedding := Some [1, 1]\<rparr>)
   \<and> (\<exists>t'. sparse_add char_tokenize empty_sparse [example_node ''7'' ''ab''] = Inr (t', [''7''])
            \<and> sparse_get t' ''7'' = Some (example_node ''7'' ''ab''))
   \<and> ''8'' \<notin> fst ` set (node_dict empty_dense) \<and> semantic_get empty_dense ''8'' = None
   \<and> ''8'' \<notin> fst ` set (node_dict empty_sparse) \<and> sparse_get empty_sparse ''8'' = None"
  using add_get_roundtrip [of "example_node ''7'' ''ab''" letter_embedding empty_dense
      char_tokenize empty_sparse "''8''"]
  by (simp add: example_node_def letter_embedding_def empty_dense_def empty_sparse_def
      field_defaults_def Let_def split: prod.splits)

text \<open>
  C3.  \<open>add([])\<close> on a sparse store without nodes: the rebuild reaches
  \<open>num_doc / self.corpus_size\<close> with both at zero and raises \<open>ZeroDivisionError\<close>.  The
  constructor skips the rebuild when the node map is empty; \<open>add\<close> has no such guard.
\<close>

theorem sparse_add_nothing_to_empty_raises:
  "sparse_add char_tokenize empty_sparse [] = Inl ZeroDivisionError
   \<and> SparseVectorStore_init char_tokenize empty_sparse = Inr empty_sparse"
  by (simp add: sparse_add_def SparseVectorStore_init_def empty_sparse_def field_defaults_def
      initialize_bm25_assets_empty)

section \<open>Sorting\<close>

lemma set_sorted_insert [simp]: "set (sorted_insert key x ys) = insert x (set ys)"
  by (induction ys) auto

lemma length_sorted_insert [simp]: "length (sorted_insert key x ys) = Suc (length ys)"
  by (induction ys) auto

lemma set_py_sorted_reverse [simp]: "set (py_sorted_reverse key xs) = set xs"
  by (induction xs) (simp_all add: py_sorted_reverse_def)

lemma length_py_sorted_reverse [simp]: "length (py_sorted_reverse key xs) = length xs"
  by (induction xs) (simp_all add: py_sorted_reverse_def)

lemma flt_irrefl [simp]: "\<not> flt a a"
  by (cases a) simp_all













lemma set_argsort_insert [simp]: "set (argsort_insert xs i js) = insert i (set js)"
  by (induction js) auto





section \<open>The dense query\<close>












lemma zip_candidates:
  "zip (map (\<lambda>r. cosine_similarity q (the r)) (map (\<lambda>(k, node). embedding node) d)) (map fst d)
     = map (\<lambda>(k, node). (cosine_similarity q (the (embedding node)), k)) d"
  by (induction d) auto



lemma length_dense_candidates [simp]:
  "length (dense_candidates g s query) = length (node_dict s)"
  by (simp add: dense_candidates_def)









section \<open>Stores without nodes\<close>

lemma node_dict_field_defaults [simp]:
  "node_dict (field_defaults nd0 persist0 force0 csv0 json0) = nd0"
  by (simp add: field_defaults_def)








lemma sparse_reachable_empty_sparse: "sparse_reachable tokenize empty_sparse"
proof -
  have "SparseVectorStore_init tokenize
      ((field_defaults [] True False None None)
         \<lparr>bm25_k1 := Num (12 / 10), bm25_b := Num (75 / 100), bm25_delta := Num (25 / 100)\<rparr>)
      = Inr empty_sparse"
    by (simp add: SparseVectorStore_init_def empty_sparse_def field_defaults_def)
  then show ?thesis by (rule sparse_reachable.constructed)
qed


text \<open>
  C8.  When a rebuild has written the sidecar, a construction over the same node map
  with the sidecar present and \<open>force_index\<close> false loads it, and the six derived
  fields it holds are those of the rebuild that wrote it and of a rebuild from scratch
  in its place.
\<close>

theorem sidecar_reload_equals_rebuild:
  assumes "initialize_bm25_assets tokenize s = Inr s1"
    and "node_dict u = node_dict s"
    and "metadata_json u = metadata_json s1"
    and "\<not> force_index u"
  shows "\<exists>u1 u2. SparseVectorStore_init tokenize u = Inr u1
           \<and> SparseVectorStore_init tokenize (u\<lparr>force_index := True\<rparr>) = Inr u2
           \<and> corpus_size u1 = corpus_size s1 \<and> corpus_size u2 = corpus_size s1
           \<and> avgdl u1 = avgdl s1 \<and> avgdl u2 = avgdl s1
           \<and> doc_freqs u1 = doc_freqs s1 \<and> doc_freqs u2 = doc_freqs s1
           \<and> idf u1 = idf s1 \<and> idf u2 = idf s1
           \<and> doc_len u1 = doc_len s1 \<and> doc_len u2 = doc_len s1
           \<and> nd u1 = nd s1 \<and> nd u2 = nd s1"
proof -
  have nonempty: "node_dict s \<noteq> []"
    using assms(1) initialize_bm25_assets_empty [of s tokenize] by auto
  have corpus: "corpus_of tokenize u = corpus_of tokenize s"
    "corpus_of tokenize (u\<lparr>force_index := True\<rparr>) = corpus_of tokenize s"
    by (simp_all add: corpus_of_def assms(2))
  from assms(1) have s1: "s1 = projr (initialize_bm25_assets tokenize s)"
    by simp
  show ?thesis
    using nonempty assms(2-4)
    by (simp add: s1 SparseVectorStore_init_def load_from_json_def
        initialize_bm25_assets_nonempty corpus)
qed


lemmas sparse_build_eval =
  sparse_add_def update_csv_def initialize_bm25_assets_def initialize_def py_truediv_def
  calculate_idf_def np_log_def content_of_def Let_def
  char_tokenize_def example_node_def two_nodes_def example_sparse_def empty_sparse_def
  field_defaults_def

lemma example_sparse_added:
  "sparse_add char_tokenize empty_sparse (map snd two_nodes) = Inr (example_sparse, [''0'', ''1''])"
  by (simp add: sparse_build_eval)

lemma example_sparse_rebuilt:
  "initialize_bm25_assets char_tokenize example_sparse = Inr example_sparse"
  by (simp add: sparse_build_eval)

lemma sparse_reachable_example_sparse: "sparse_reachable char_tokenize example_sparse"
  using sparse_reachable.added [OF sparse_reachable_empty_sparse example_sparse_added] .

theorem sidecar_reload_equals_rebuild_witness:
  "initialize_bm25_assets char_tokenize example_sparse = Inr example_sparse
   \<and> node_dict (field_defaults two_nodes True False None (metadata_json example_sparse))
       = node_dict example_sparse
   \<and> \<not> force_index (field_defaults two_nodes True False None (metadata_json example_sparse))
   \<and> (\<exists>u1. SparseVectorStore_init char_tokenize
              (field_defaults two_nodes True False None (metadata_json example_sparse)) = Inr u1
          \<and> corpus_size u1 = 2 \<and> avgdl u1 = Num (3 / 2)
          \<and> doc_freqs u1 = [[(''a'', 1), (''b'', 1)], [(''b'', 1)]]
          \<and> idf u1 = [(''a'', Num (ln 2)), (''b'', Num (ln (6 / 5)))]
          \<and> doc_len u1 = [2, 1] \<and> nd u1 = 0)"
proof -
  let ?u = "field_defaults two_nodes True False None (metadata_json example_sparse)"
  have u: "node_dict ?u = node_dict example_sparse" "metadata_json ?u = metadata_json example_sparse"
    "\<not> force_index ?u"
    by (simp_all add: field_defaults_def example_sparse_def)
  from sidecar_reload_equals_rebuild [OF example_sparse_rebuilt u]
  obtain u1 where "SparseVectorStore_init char_tokenize ?u = Inr u1"
    "corpus_size u1 = corpus_size example_sparse" "avgdl u1 = avgdl example_sparse"
    "doc_freqs u1 = doc_freqs example_sparse" "idf u1 = idf example_sparse"
    "doc_len u1 = doc_len example_sparse" "nd u1 = nd example_sparse"
    by blast
  then have "\<exists>u1. SparseVectorStore_init char_tokenize ?u = Inr u1
          \<and> corpus_size u1 = 2 \<and> avgdl u1 = Num (3 / 2)
          \<and> doc_freqs u1 = [[(''a'', 1), (''b'', 1)], [(''b'', 1)]]
          \<and> idf u1 = [(''a'', Num (ln 2)), (''b'', Num (ln (6 / 5)))]
          \<and> doc_len u1 = [2, 1] \<and> nd u1 = 0"
    by (simp add: example_sparse_def)
  with example_sparse_rebuilt u show ?thesis by simp
qed

section \<open>The sparse query\<close>

















lemma np_sort_le_refl [simp]: "np_sort_le a a"
  by (cases a) simp_all









section \<open>Positions as node ids\<close>


lemma str_nat_not_Nil [simp]: "str_nat n \<noteq> []"
  by (subst str_nat.simps) simp

lemma str_nat_not_Nil' [simp]: "[] \<noteq> str_nat n"
  using str_nat_not_Nil [of n] by metis





lemma py_getitems_map_of:
  "\<forall>k \<in> set ks. map_of d k = Some (f k) \<Longrightarrow> py_getitems d ks = Inr (map f ks)"
  by (induction ks) (simp_all add: py_getitem_def)






lemma shifted_sparse_added:
  "sparse_add char_tokenize empty_sparse [example_node ''1'' ''ab'', example_node ''2'' ''b'']
     = Inr (shifted_sparse, [''1'', ''2''])"
  by (simp add: sparse_build_eval shifted_sparse_def)






section \<open>The index and the BM25+ score\<close>

lemma not_in_keys_iff: "k \<notin> fst ` set al \<longleftrightarrow> map_of al k = None"
  by (simp add: map_of_eq_None_iff)

lemma map_of_count_frequencies:
  "map_of (count_frequencies d f) q =
     (if q \<in> set d
      then Some ((case map_of f q of None \<Rightarrow> 0 | Some c \<Rightarrow> c) + int (count_list d q))
      else map_of f q)"
proof (induction d arbitrary: f)
  case Nil
  then show ?case by simp
next
  case (Cons w d)
  show ?case
    by (simp add: Cons.IH Let_def update_conv' not_in_keys_iff del: map_of_eq_None_iff
        split: option.splits)
qed

lemma distinct_count_frequencies:
  "distinct (map fst f) \<Longrightarrow> distinct (map fst (count_frequencies d f))"
  by (induction d arbitrary: f) (simp_all add: Let_def distinct_update)

lemma keys_count_frequencies: "fst ` set (count_frequencies d []) = set d"
proof -
  have "map_of (count_frequencies d []) q = None \<longleftrightarrow> q \<notin> set d" for q
    by (simp add: map_of_count_frequencies)
  then show ?thesis
    by (metis (no_types, lifting) not_in_keys_iff subsetI subset_antisym)
qed

lemma map_of_count_documents:
  "distinct (map fst items) \<Longrightarrow>
   map_of (count_documents items nd_map) w =
     (if w \<in> fst ` set items
      then Some ((case map_of nd_map w of None \<Rightarrow> 0 | Some c \<Rightarrow> c) + 1)
      else map_of nd_map w)"
proof (induction items arbitrary: nd_map)
  case Nil
  then show ?case by simp
next
  case (Cons item items)
  obtain word freq where item: "item = (word, freq)" by (cases item)
  from Cons.prems item have "word \<notin> fst ` set items" and "distinct (map fst items)"
    by auto
  then show ?case
    by (auto simp: item Cons.IH update_conv' split: option.splits)
qed

lemma map_of_fold_count_documents:
  "map_of (fold count_documents (map (\<lambda>d. count_frequencies d []) corpus) nd_map) w =
     (if document_frequency corpus w = 0 then map_of nd_map w
      else Some ((case map_of nd_map w of None \<Rightarrow> 0 | Some c \<Rightarrow> c)
                 + int (document_frequency corpus w)))"
proof (induction corpus arbitrary: nd_map)
  case Nil
  then show ?case by (simp add: document_frequency_def)
next
  case (Cons d corpus)
  have step: "map_of (count_documents (count_frequencies d []) nd_map) w =
     (if w \<in> set d
      then Some ((case map_of nd_map w of None \<Rightarrow> 0 | Some c \<Rightarrow> c) + 1)
      else map_of nd_map w)"
    by (simp add: map_of_count_documents distinct_count_frequencies keys_count_frequencies)
  show ?case
    by (simp add: Cons.IH step document_frequency_def split: option.splits)
qed

lemma document_frequency_le: "document_frequency corpus q \<le> length corpus"
  by (simp add: document_frequency_def)

lemma calculate_idf_built:
  assumes "0 < document_frequency corpus q"
  shows "calculate_idf (int (document_frequency corpus q)) (int (length corpus))
           = Num (bm25plus_idf corpus q)"
proof -
  let ?df = "document_frequency corpus q"
  have le: "real ?df \<le> real (length corpus)"
    using document_frequency_le [of corpus q] by simp
  have conv: "real_of_int (int (length corpus) - int ?df) = real (length corpus) - real ?df"
    by simp
  have "0 \<le> (real (length corpus) - real ?df + 5 / 10) / (real ?df + 5 / 10)"
    using le by (intro divide_nonneg_pos) simp_all
  then have "0 < (real (length corpus) - real ?df + 5 / 10) / (real ?df + 5 / 10) + 1"
    by linarith
  with assms show ?thesis
    by (simp only: calculate_idf_def np_log_def conv bm25plus_idf_def of_int_of_nat_eq) simp
qed

lemma built_index:
  assumes "initialize_bm25_assets tokenize s0 = Inr s"
  shows "corpus_of tokenize s0 \<noteq> []"
    and "corpus_size s = int (length (corpus_of tokenize s0))"
    and "avgdl s = Num (average_document_length (corpus_of tokenize s0))"
    and "doc_freqs s = map (\<lambda>d. count_frequencies d []) (corpus_of tokenize s0)"
    and "doc_len s = map (\<lambda>d. int (length d)) (corpus_of tokenize s0)"
    and "idf s = map (\<lambda>(word, doc_count).
                   (word, calculate_idf doc_count (int (length (corpus_of tokenize s0)))))
                 (fold count_documents
                    (map (\<lambda>d. count_frequencies d []) (corpus_of tokenize s0)) [])"
    and "bm25_k1 s = bm25_k1 s0" and "bm25_b s = bm25_b s0" and "bm25_delta s = bm25_delta s0"
proof -
  have nonempty: "node_dict s0 \<noteq> []"
    using assms initialize_bm25_assets_empty [of s0 tokenize] by auto
  have len: "length (corpus_of tokenize s0) = length (node_dict s0)"
    by (simp add: corpus_of_def)
  from assms have s: "s = projr (initialize_bm25_assets tokenize s0)" by simp
  show "corpus_of tokenize s0 \<noteq> []"
    using nonempty len by auto
  show "corpus_size s = int (length (corpus_of tokenize s0))"
    and "avgdl s = Num (average_document_length (corpus_of tokenize s0))"
    and "doc_freqs s = map (\<lambda>d. count_frequencies d []) (corpus_of tokenize s0)"
    and "doc_len s = map (\<lambda>d. int (length d)) (corpus_of tokenize s0)"
    and "idf s = map (\<lambda>(word, doc_count).
                   (word, calculate_idf doc_count (int (length (corpus_of tokenize s0)))))
                 (fold count_documents
                    (map (\<lambda>d. count_frequencies d []) (corpus_of tokenize s0)) [])"
    and "bm25_k1 s = bm25_k1 s0" and "bm25_b s = bm25_b s0" and "bm25_delta s = bm25_delta s0"
    unfolding s initialize_bm25_assets_nonempty [OF nonempty]
    by (simp_all add: average_document_length_def len)
qed

lemma built_idf_lookup:
  assumes "initialize_bm25_assets tokenize s0 = Inr s"
  shows "(case map_of (idf s) q of None \<Rightarrow> Num 0 | Some v \<Rightarrow> v)
           = Num (bm25plus_idf (corpus_of tokenize s0) q)"
proof (cases "document_frequency (corpus_of tokenize s0) q = 0")
  case True
  then show ?thesis
    by (simp add: built_index(6) [OF assms] map_of_map map_of_fold_count_documents
        bm25plus_idf_def)
next
  case False
  then have "0 < document_frequency (corpus_of tokenize s0) q" by simp
  from calculate_idf_built [OF this] False show ?thesis
    by (simp add: built_index(6) [OF assms] map_of_map map_of_fold_count_documents)
qed

lemma built_q_freq:
  assumes "initialize_bm25_assets tokenize s0 = Inr s"
  shows "q_freq_of s q = map (\<lambda>d. Num (real (count_list d q))) (corpus_of tokenize s0)"
  by (simp add: q_freq_of_def built_index(4) [OF assms] map_of_count_frequencies comp_def)

lemma average_document_length_pos:
  assumes "\<exists>d \<in> set corpus. d \<noteq> []"
  shows "0 < average_document_length corpus"
proof -
  have nonneg: "0 \<le> (\<Sum>e\<leftarrow>xs. real (length e))" for xs :: "string list list"
    by (induction xs) simp_all
  have "0 < (\<Sum>e\<leftarrow>corpus. real (length e))"
    using assms
  proof (induction corpus)
    case Nil
    then show ?case by simp
  next
    case (Cons d corpus)
    show ?case
    proof (cases "d = []")
      case True
      with Cons show ?thesis by simp
    next
      case False
      then have "0 < real (length d)" by simp
      with nonneg [of corpus] have "0 < real (length d) + (\<Sum>e\<leftarrow>corpus. real (length e))"
        by linarith
      then show ?thesis by simp
    qed
  qed
  moreover have "0 < real (length corpus)" using assms by (cases corpus) simp_all
  ultimately show ?thesis by (simp add: average_document_length_def)
qed

lemma length_norm_pos:
  assumes "0 < average_document_length corpus"
  shows "0 < 1 - 75 / 100 + 75 / 100 * real (length d) / average_document_length corpus"
proof -
  have "0 \<le> 75 / 100 * real (length d) / average_document_length corpus"
    using assms by simp
  then show ?thesis by linarith
qed

lemma bm25plus_tf_nonneg:
  assumes "0 < average_document_length corpus"
  shows "0 \<le> bm25plus_tf corpus q d"
  unfolding bm25plus_tf_def
  using length_norm_pos [OF assms, of d] by (intro divide_nonneg_pos) simp_all

lemma built_length_norm:
  assumes "initialize_bm25_assets tokenize s0 = Inr s" and "default_hyperparameters s0"
    and "0 < average_document_length (corpus_of tokenize s0)"
  shows "length_norm_of s =
     map (\<lambda>d. Num (1 - 75 / 100
                    + 75 / 100 * real (length d) / average_document_length (corpus_of tokenize s0)))
       (corpus_of tokenize s0)"
  using assms(2,3)
  by (simp add: length_norm_of_def built_index [OF assms(1)] default_hyperparameters_def
      fsub_def comp_def)

lemma built_ctd:
  assumes "initialize_bm25_assets tokenize s0 = Inr s" and "default_hyperparameters s0"
    and "0 < average_document_length (corpus_of tokenize s0)"
  shows "np_elementwise fdiv (q_freq_of s q) (length_norm_of s) =
     Inr (map (\<lambda>d. Num (bm25plus_tf (corpus_of tokenize s0) q d)) (corpus_of tokenize s0))"
proof -
  have "fdiv (Num (real (count_list d q)))
          (Num (1 - 75 / 100
                + 75 / 100 * real (length d) / average_document_length (corpus_of tokenize s0)))
        = Num (bm25plus_tf (corpus_of tokenize s0) q d)" for d
    using length_norm_pos [OF assms(3), of d] by (simp add: bm25plus_tf_def)
  then show ?thesis
    by (simp add: np_elementwise_def built_q_freq [OF assms(1)] built_length_norm [OF assms]
        map2_map_map del: fdiv.simps)
qed

lemma built_score_term:
  assumes "initialize_bm25_assets tokenize s0 = Inr s" and "default_hyperparameters s0"
    and "0 < average_document_length (corpus_of tokenize s0)"
  shows "score_term s q (Num (bm25plus_tf (corpus_of tokenize s0) q d))
           = Num (bm25plus_term (corpus_of tokenize s0) q d)"
proof -
  have "0 < 12 / 10 + bm25plus_tf (corpus_of tokenize s0) q d + 25 / 100"
    using bm25plus_tf_nonneg [OF assms(3), of q d] by linarith
  then have nz: "12 / 10 + bm25plus_tf (corpus_of tokenize s0) q d + 25 / 100 \<noteq> 0"
    by simp
  have params: "bm25_k1 s = Num (12 / 10)" "bm25_delta s = Num (25 / 100)"
    using assms(2) by (simp_all add: built_index(7-9) [OF assms(1)] default_hyperparameters_def)
  have "score_term s q (Num (bm25plus_tf (corpus_of tokenize s0) q d))
      = fdiv (Num (bm25plus_idf (corpus_of tokenize s0) q * (12 / 10 + 1)
                   * (bm25plus_tf (corpus_of tokenize s0) q d + 25 / 100)))
             (Num (12 / 10 + bm25plus_tf (corpus_of tokenize s0) q d + 25 / 100))"
    by (simp only: score_term_def built_idf_lookup [OF assms(1)] params fmul.simps fadd.simps)
  also have "\<dots> = Num (bm25plus_term (corpus_of tokenize s0) q d)"
    using nz by (simp only: fdiv.simps bm25plus_term_def if_True not_False_eq_True)
  finally show ?thesis .
qed

lemma built_scores_loop:
  assumes "initialize_bm25_assets tokenize s0 = Inr s" and "default_hyperparameters s0"
    and "0 < average_document_length (corpus_of tokenize s0)"
  shows "get_scores_loop s toks (map (\<lambda>d. Num (acc d)) (corpus_of tokenize s0)) =
     Inr (map (\<lambda>d. Num (acc d + bm25plus_score (corpus_of tokenize s0) toks d))
            (corpus_of tokenize s0))"
proof (induction toks arbitrary: acc)
  case Nil
  then show ?case by (simp add: bm25plus_score_def)
next
  case (Cons q toks)
  let ?corpus = "corpus_of tokenize s0"
  have terms: "map (score_term s q) (map (\<lambda>d. Num (bm25plus_tf ?corpus q d)) ?corpus)
      = map (\<lambda>d. Num (bm25plus_term ?corpus q d)) ?corpus"
    by (simp add: built_score_term [OF assms] comp_def)
  have add: "np_iadd (map (\<lambda>d. Num (acc d)) ?corpus) (map (\<lambda>d. Num (bm25plus_term ?corpus q d)) ?corpus)
      = Inr (map (\<lambda>d. Num (acc d + bm25plus_term ?corpus q d)) ?corpus)"
    by (simp add: np_iadd_def map2_map_map)
  have "get_scores_loop s (q # toks) (map (\<lambda>d. Num (acc d)) ?corpus)
      = get_scores_loop s toks (map (\<lambda>d. Num (acc d + bm25plus_term ?corpus q d)) ?corpus)"
    by (simp only: get_scores_loop.simps built_ctd [OF assms] terms add sum.case)
  also have "\<dots> = Inr (map (\<lambda>d. Num (acc d + bm25plus_term ?corpus q d
                                 + bm25plus_score ?corpus toks d)) ?corpus)"
    by (rule Cons.IH)
  finally show ?case by (simp add: bm25plus_score_def add.assoc)
qed

lemma fadd_NaN_right [simp]: "fadd x NaN = NaN"
  by (cases x) simp_all

lemma fmul_NaN_right [simp]: "fmul x NaN = NaN"
  by (cases x) simp_all

lemma fdiv_NaN_right [simp]: "fdiv x NaN = NaN"
  by (cases x) simp_all

lemma average_document_length_blank:
  assumes "\<forall>d \<in> set corpus. d = []"
  shows "average_document_length corpus = 0"
proof -
  have "(\<Sum>d\<leftarrow>corpus. real (length d)) = 0"
    using assms by (induction corpus) simp_all
  then show ?thesis by (simp add: average_document_length_def)
qed

lemma blank_scores_loop:
  assumes "initialize_bm25_assets tokenize s0 = Inr s" and "default_hyperparameters s0"
    and "\<forall>d \<in> set (corpus_of tokenize s0). d = []"
  shows "toks \<noteq> [] \<or> (\<forall>x \<in> set score. x = NaN) \<Longrightarrow> length score = length (corpus_of tokenize s0)
     \<Longrightarrow> get_scores_loop s toks score = Inr (map (\<lambda>d. NaN) (corpus_of tokenize s0))"
proof (induction toks arbitrary: score)
  case Nil
  then have "score = map (\<lambda>d. NaN) (corpus_of tokenize s0)"
    by (auto simp: list_eq_iff_nth_eq)
  then show ?case by simp
next
  case (Cons q toks)
  let ?corpus = "corpus_of tokenize s0"
  have b: "bm25_b s = Num (75 / 100)"
    using assms(2) by (simp add: built_index(8) [OF assms(1)] default_hyperparameters_def)
  have norm: "length_norm_of s = map (\<lambda>d. NaN) ?corpus"
    using assms(3)
    by (simp add: length_norm_of_def built_index(3,5) [OF assms(1)] b
        average_document_length_blank [OF assms(3)] fsub_def)
  have ctd: "np_elementwise fdiv (q_freq_of s q) (length_norm_of s) = Inr (map (\<lambda>d. NaN) ?corpus)"
    by (simp add: np_elementwise_def built_q_freq [OF assms(1)] norm map2_map_map)
  have terms: "map (score_term s q) (map (\<lambda>d. NaN) ?corpus) = map (\<lambda>d. NaN) ?corpus"
    by (simp add: score_term_def)
  have "map2 fadd score (map (\<lambda>d. NaN) ?corpus) = map (\<lambda>d. NaN) ?corpus"
    using Cons.prems(2) by (simp add: list_eq_iff_nth_eq)
  then have add: "np_iadd score (map (\<lambda>d. NaN) ?corpus) = Inr (map (\<lambda>d. NaN) ?corpus)"
    using Cons.prems(2) by (simp add: np_iadd_def)
  have "get_scores_loop s (q # toks) score = get_scores_loop s toks (map (\<lambda>d. NaN) ?corpus)"
    by (simp only: get_scores_loop.simps ctd terms add sum.case)
  also have "\<dots> = Inr (map (\<lambda>d. NaN) ?corpus)"
    by (rule Cons.IH) simp_all
  finally show ?case .
qed

lemma get_scores_loop_cong:
  assumes "doc_freqs s = doc_freqs s'" and "doc_len s = doc_len s'" and "avgdl s = avgdl s'"
    and "idf s = idf s'" and "bm25_k1 s = bm25_k1 s'" and "bm25_b s = bm25_b s'"
    and "bm25_delta s = bm25_delta s'"
  shows "get_scores_loop s toks score = get_scores_loop s' toks score"
proof (induction toks arbitrary: score)
  case Nil
  then show ?case by simp
next
  case (Cons q toks)
  have "q_freq_of s q = q_freq_of s' q" "length_norm_of s = length_norm_of s'"
    "score_term s q = score_term s' q"
    using assms by (simp_all add: q_freq_of_def length_norm_of_def score_term_def fun_eq_iff)
  then show ?case
    by (simp add: Cons.IH split: sum.splits)
qed

lemma get_scores_cong:
  assumes "content_of s = content_of s'" and "default_hyperparameters s"
    and "default_hyperparameters s'"
  shows "get_scores tokenize s query = get_scores tokenize s' query"
proof -
  from assms(1) have "corpus_size s = corpus_size s'" "doc_freqs s = doc_freqs s'"
    "doc_len s = doc_len s'" "avgdl s = avgdl s'" "idf s = idf s'"
    by (simp_all add: content_of_def)
  moreover from assms(2,3) have "bm25_k1 s = bm25_k1 s'" "bm25_b s = bm25_b s'"
    "bm25_delta s = bm25_delta s'"
    by (simp_all add: default_hyperparameters_def)
  ultimately show ?thesis
    using get_scores_loop_cong [of s s'] by (simp add: get_scores_def)
qed

text \<open>
  C4, as the code has it.  Let the index of a store with the default hyperparameters be
  the one a rebuild over a corpus produces (the store after \<open>add\<close>, or a store that loaded
  the sidecar such a rebuild wrote).  The corpus is then not empty.  When at least one of
  its documents has a token, the score of every document is the BM25+ sum over the
  tokens of the query.  When every document is empty, \<open>avgdl\<close> is zero, the length
  normalisation divides zero by zero, and every score of a query with a token is NaN.
\<close>

theorem get_scores_is_bm25plus:
  assumes "initialize_bm25_assets tokenize s0 = Inr s1" and "default_hyperparameters s0"
    and "content_of s = content_of s1" and "default_hyperparameters s"
  shows "0 < corpus_size s
     \<and> ((\<exists>d \<in> set (corpus_of tokenize s0). d \<noteq> []) \<longrightarrow>
          get_scores tokenize s query =
            Inr (map (\<lambda>d. Num (bm25plus_score (corpus_of tokenize s0) (tokenize query) d))
                   (corpus_of tokenize s0)))
     \<and> ((\<forall>d \<in> set (corpus_of tokenize s0). d = []) \<and> tokenize query \<noteq> [] \<longrightarrow>
          get_scores tokenize s query = Inr (map (\<lambda>d. NaN) (corpus_of tokenize s0)))"
proof -
  let ?corpus = "corpus_of tokenize s0"
  have s1: "default_hyperparameters s1"
    using assms(2) by (simp add: default_hyperparameters_def built_index(7-9) [OF assms(1)])
  have same: "get_scores tokenize s query = get_scores tokenize s1 query"
    by (rule get_scores_cong [OF assms(3,4) s1])
  have size: "corpus_size s1 = int (length ?corpus)" and nonempty: "?corpus \<noteq> []"
    by (rule built_index [OF assms(1)])+
  have "corpus_size s = corpus_size s1"
    using assms(3) by (simp add: content_of_def)
  with size nonempty have pos: "0 < corpus_size s" by simp
  have zeros: "replicate (length ?corpus) (Num 0) = map (\<lambda>d. Num 0) ?corpus"
    by (simp add: map_replicate_const)
  have unfold: "get_scores tokenize s1 query
      = get_scores_loop s1 (tokenize query) (map (\<lambda>d. Num 0) ?corpus)"
    by (simp add: get_scores_def size zeros)
  have scored: "get_scores tokenize s1 query =
            Inr (map (\<lambda>d. Num (bm25plus_score ?corpus (tokenize query) d)) ?corpus)"
    if "\<exists>d \<in> set ?corpus. d \<noteq> []"
    using built_scores_loop [OF assms(1,2) average_document_length_pos [OF that],
        of "tokenize query" "\<lambda>d. 0"]
    by (simp add: unfold)
  have blank: "get_scores tokenize s1 query = Inr (map (\<lambda>d. NaN) ?corpus)"
    if "\<forall>d \<in> set ?corpus. d = []" and "tokenize query \<noteq> []"
    unfolding unfold using that(2)
    by (intro blank_scores_loop [OF assms(1,2) that(1)]) simp_all
  from pos scored blank show ?thesis by (simp add: same)
qed

lemma blank_sparse_added:
  "sparse_add char_tokenize empty_sparse [example_node ''0'' []] = Inr (blank_sparse, [''0''])"
  by (simp add: sparse_build_eval blank_sparse_def)

lemma blank_sparse_rebuilt:
  "initialize_bm25_assets char_tokenize blank_sparse = Inr blank_sparse"
  by (simp add: sparse_build_eval blank_sparse_def)

lemma blank_sparse_scores: "get_scores char_tokenize blank_sparse ''a'' = Inr [NaN]"
  by (simp add: get_scores_def q_freq_of_def length_norm_of_def score_term_def
      np_elementwise_def np_iadd_def fsub_def blank_sparse_def char_tokenize_def)

lemma example_corpus:
  "corpus_of char_tokenize example_sparse = [[''a'', ''b''], [''b'']]"
  by (simp add: corpus_of_def example_sparse_def two_nodes_def example_node_def char_tokenize_def)

lemma blank_corpus: "corpus_of char_tokenize blank_sparse = [[]]"
  by (simp add: corpus_of_def blank_sparse_def example_node_def char_tokenize_def)

lemmas bm25plus_eval =
  bm25plus_score_def bm25plus_term_def bm25plus_tf_def bm25plus_idf_def
  average_document_length_def document_frequency_def

lemma example_bm25plus_scores:
  "bm25plus_score [[''a'', ''b''], [''b'']] [''a''] [''a'', ''b''] = 77 * ln 2 / 75"
  "bm25plus_score [[''a'', ''b''], [''b'']] [''a''] [''b''] = 11 * ln 2 / 29"
  by (simp_all add: bm25plus_eval)

theorem get_scores_is_bm25plus_witness:
  "initialize_bm25_assets char_tokenize example_sparse = Inr example_sparse
   \<and> default_hyperparameters example_sparse
   \<and> corpus_of char_tokenize example_sparse = [[''a'', ''b''], [''b'']]
   \<and> [''a'', ''b''] \<noteq> []
   \<and> get_scores char_tokenize example_sparse ''a''
       = Inr [Num (bm25plus_score [[''a'', ''b''], [''b'']] [''a''] [''a'', ''b'']),
              Num (bm25plus_score [[''a'', ''b''], [''b'']] [''a''] [''b''])]
   \<and> bm25plus_score [[''a'', ''b''], [''b'']] [''a''] [''a'', ''b''] = 77 * ln 2 / 75
   \<and> bm25plus_score [[''a'', ''b''], [''b'']] [''a''] [''b''] = 11 * ln 2 / 29
   \<and> initialize_bm25_assets char_tokenize blank_sparse = Inr blank_sparse
   \<and> default_hyperparameters blank_sparse
   \<and> corpus_of char_tokenize blank_sparse = [[]]
   \<and> char_tokenize ''a'' \<noteq> []
   \<and> get_scores char_tokenize blank_sparse ''a'' = Inr [NaN]"
proof -
  have ex: "default_hyperparameters example_sparse"
    by (simp add: default_hyperparameters_def example_sparse_def)
  have bl: "default_hyperparameters blank_sparse"
    by (simp add: default_hyperparameters_def blank_sparse_def)
  have tok: "char_tokenize ''a'' \<noteq> []"
    by (simp add: char_tokenize_def)
  have scored: "get_scores char_tokenize example_sparse ''a''
       = Inr [Num (bm25plus_score [[''a'', ''b''], [''b'']] [''a''] [''a'', ''b'']),
              Num (bm25plus_score [[''a'', ''b''], [''b'']] [''a''] [''b''])]"
    using get_scores_is_bm25plus [OF example_sparse_rebuilt ex refl ex, of "''a''"]
    by (simp add: example_corpus char_tokenize_def)
  have blank: "get_scores char_tokenize blank_sparse ''a'' = Inr [NaN]"
    using get_scores_is_bm25plus [OF blank_sparse_rebuilt bl refl bl, of "''a''"] tok
    by (simp add: blank_corpus)
  from ex bl tok scored blank show ?thesis
    by (simp only: example_sparse_rebuilt blank_sparse_rebuilt example_corpus blank_corpus
        example_bm25plus_scores simp_thms list.distinct)
qed

text \<open>
  A corpus of size one whose only document is empty: the query token \<open>a\<close> occurs nowhere
  in the corpus, and the score of the document is NaN, neither zero nor any other value
  of the sum.
\<close>

theorem get_scores_blank_corpus_counterexample:
  "sparse_add char_tokenize empty_sparse [example_node ''0'' []] = Inr (blank_sparse, [''0''])
   \<and> 0 < corpus_size blank_sparse
   \<and> get_scores char_tokenize blank_sparse ''a'' = Inr [NaN]
   \<and> get_scores char_tokenize blank_sparse ''a''
       \<noteq> Inr (map (\<lambda>d. Num (bm25plus_score (corpus_of char_tokenize blank_sparse)
                               (char_tokenize ''a'') d))
                (corpus_of char_tokenize blank_sparse))"
  by (simp add: blank_sparse_added blank_sparse_scores blank_corpus)
     (simp add: blank_sparse_def)

end
